theory Spec2Isabelle
  imports Main "HOL-Library.Word"
begin

section \<open>Go values used by plugins/autopeering/autopeering.go\<close>

subsection \<open>Errors\<close>

text \<open>
  A Go \<^verbatim>\<open>error\<close> is either a plain error made by \<^verbatim>\<open>errors.New\<close> (a message), or the
  value built by \<^verbatim>\<open>fmt.Errorf\<close> with one \<^verbatim>\<open>%w\<close> verb: a message together with the error
  it wraps. Errors handed out by the libraries are values of the same type.
  (\<^verbatim>\<open>errors.New\<close> values are compared here by their message.)
\<close>

datatype error =
    errorString string
  | wrapError string error

fun Error :: "error \<Rightarrow> string" where
  "Error (errorString s) = s"
| "Error (wrapError msg err) = msg"

fun Unwrap :: "error \<Rightarrow> error option" where
  "Unwrap (errorString s) = None"
| "Unwrap (wrapError msg err) = Some err"

fun errors_Is :: "error \<Rightarrow> error \<Rightarrow> bool" where
  "errors_Is (errorString s) target = (errorString s = target)"
| "errors_Is (wrapError msg err) target = (wrapError msg err = target \<or> errors_Is err target)"

text \<open>The verb \<^verbatim>\<open>%d\<close> of package fmt: an integer in decimal, with a sign when negative.\<close>

definition digit :: "nat \<Rightarrow> char" where
  "digit n = ''0123456789'' ! n"

fun FormatUint :: "nat \<Rightarrow> string" where
  "FormatUint n =
     (if n < 10 then [digit n] else FormatUint (n div 10) @ [digit (n mod 10)])"

definition fmt_d :: "int \<Rightarrow> string" where
  "fmt_d i = (if i < 0 then ''-'' @ FormatUint (nat (- i)) else FormatUint (nat i))"

text \<open>line 34: \<^verbatim>\<open>ErrParsingEntryNode = errors.New("can't parse entry node")\<close>\<close>

definition ErrParsingEntryNode :: error where
  "ErrParsingEntryNode = errorString (''can'' @ [CHR 0x27] @ ''t parse entry node'')"

subsection \<open>Strings\<close>

text \<open>
  \<^verbatim>\<open>strings.Split(s, sep)\<close> for a separator of one byte, which is how line 138 calls it:
  the substrings between the separators, one more than there are separators; the empty
  string gives the one-element list holding the empty string. \<open>Split_from\<close> scans the
  string with the part read so far.
\<close>

fun Split_from :: "string \<Rightarrow> char \<Rightarrow> string \<Rightarrow> string list" where
  "Split_from [] sep part = [part]"
| "Split_from (c # cs) sep part =
     (if c = sep then part # Split_from cs sep [] else Split_from cs sep (part @ [c]))"

definition Split :: "string \<Rightarrow> char \<Rightarrow> string list" where
  "Split s sep = Split_from s sep []"

subsection \<open>Peers and their services\<close>

type_synonym bytes = "8 word list"

text \<open>
  A \<^verbatim>\<open>service.Record\<close> maps a service key to a network address (network and address
  string). \<^verbatim>\<open>Get\<close> of a key that is not registered is nil, here \<open>None\<close>.
\<close>

record networkAddress =
  network :: string
  address :: string

type_synonym Record = "string \<rightharpoonup> networkAddress"

definition service_New :: Record where
  "service_New = Map.empty"

definition Update :: "Record \<Rightarrow> string \<Rightarrow> string \<Rightarrow> string \<Rightarrow> Record" where
  "Update s key nw addr = s(key \<mapsto> \<lparr>network = nw, address = addr\<rparr>)"

definition Get :: "Record \<Rightarrow> string \<Rightarrow> networkAddress option" where
  "Get s key = s key"

text \<open>\<^verbatim>\<open>service.PeeringKey\<close> of hive.go.\<close>

definition PeeringKey :: string where
  "PeeringKey = ''peering''"

record Peer =
  PublicKey :: bytes
  Services :: Record

definition NewPeer :: "bytes \<Rightarrow> Record \<Rightarrow> Peer" where
  "NewPeer pubKey services = \<lparr>PublicKey = pubKey, Services = services\<rparr>"

subsection \<open>The libraries and the configuration\<close>

text \<open>
  The functions of the Go standard library and of hive.go that the plugin calls, and the
  configuration values it reads, are parameters: every theorem below holds whatever they
  compute. A result \<open>Inl err\<close>, or \<open>Some err\<close> where nothing else is returned, is a
  returned error.
  \<^item> \<open>GossipServiceKey\<close> is the key returned by \<^verbatim>\<open>services.GossipServiceKey()\<close>;
  \<^item> \<open>SplitHostPort\<close>, \<open>ResolveUDPAddr\<close>, \<open>ListenUDP\<close> are those of package net (the
    connection that \<open>ListenUDP\<close> returns is the resource \<open>R_conn\<close>), \<open>DecodeString\<close>
    and \<open>EncodeToString\<close> those of \<^verbatim>\<open>base64.StdEncoding\<close>, \<open>CheckUDP\<close> that of netutil;
  \<^item> \<open>ParseOriginAddress\<close>, \<open>GetIPAddressesFromHost\<close>, \<open>GetPreferredAddress\<close> and
    \<open>ToString\<close> are those of iputils (\<open>GetPreferredAddress\<close> gives an address for
    every set of addresses that \<open>GetIPAddressesFromHost\<close> returns without error);
  \<^item> \<open>prefer_ipv6\<close> is \<^verbatim>\<open>parameter.NodeConfig.GetBool("network.prefer_ipv6")\<close>,
    \<open>CFG_BIND\<close> the constant \<^verbatim>\<open>local.CFG_BIND\<close> and \<open>CFG_BIND_value\<close> the value
    \<^verbatim>\<open>parameter.NodeConfig.GetString(local.CFG_BIND)\<close>, \<open>plugin_name\<close> the package
    constant \<^verbatim>\<open>name\<close>;
  \<^item> \<open>lPeer\<close> is the peer of \<^verbatim>\<open>local.GetInstance()\<close> and \<open>lPeer_ID\<close> its
    \<^verbatim>\<open>ID().String()\<close>;
  \<^item> \<open>Close_panics r\<close> says whether the \<^verbatim>\<open>Close\<close> call on the resource \<open>r\<close> panics, and
    with what; any value a \<^verbatim>\<open>Close\<close> returns is dropped by \<^verbatim>\<open>defer\<close>.
\<close>

record OriginAddress =
  Addr :: string
  Port :: int

type_synonym IP = "8 word list"

record UDPAddr =
  udp_IP :: IP
  udp_Port :: int
  udp_Zone :: string

datatype panic =
    NilPointerDereference
  | PanicError error
  | PanicValue string

datatype resource = R_conn | R_trans | R_srv | R_Discovery | R_Selection

record env =
  GossipServiceKey :: string
  SplitHostPort :: "string \<Rightarrow> error + string \<times> string"
  DecodeString :: "string \<Rightarrow> error + bytes"
  EncodeToString :: "bytes \<Rightarrow> string"
  ParseOriginAddress :: "string \<Rightarrow> error + OriginAddress"
  GetIPAddressesFromHost :: "string \<Rightarrow> error + IP list"
  GetPreferredAddress :: "IP list \<Rightarrow> bool \<Rightarrow> IP"
  ToString :: "IP \<Rightarrow> string"
  prefer_ipv6 :: bool
  lPeer :: Peer
  lPeer_ID :: string
  plugin_name :: string
  CFG_BIND :: string
  CFG_BIND_value :: string
  ResolveUDPAddr :: "string \<Rightarrow> string \<Rightarrow> error + UDPAddr"
  CheckUDP :: "UDPAddr \<Rightarrow> UDPAddr \<Rightarrow> bool \<Rightarrow> bool \<Rightarrow> error option"
  ListenUDP :: "string \<Rightarrow> UDPAddr \<Rightarrow> error option"
  Close_panics :: "resource \<Rightarrow> panic option"

section \<open>parseEntryNodes (lines 132 to 164)\<close>

text \<open>
  The body of the loop for one entry node definition that is not the empty string
  (lines 138 to 160): the error returned, or the peer appended to \<^verbatim>\<open>result\<close>.
\<close>

definition parseEntryNode :: "env \<Rightarrow> string \<Rightarrow> error + Peer" where
  "parseEntryNode env entryNodeDefinition =
     (let parts = Split entryNodeDefinition CHR ''@'' in
      if length parts \<noteq> 2 then
        Inl (wrapError (Error ErrParsingEntryNode @ '': entry node parts must be 2, is ''
                          @ fmt_d (int (length parts))) ErrParsingEntryNode)
      else
        case DecodeString env (parts ! 0) of
          Inl err \<Rightarrow>
            Inl (wrapError (Error ErrParsingEntryNode @ '': can'' @ [CHR 0x27]
                              @ ''t decode public key: '' @ Error err) ErrParsingEntryNode)
        | Inr pubKey \<Rightarrow>
           (case ParseOriginAddress env (parts ! 1) of
              Inl err \<Rightarrow>
                Inl (wrapError (Error err @ '': invalid entry node address '' @ parts ! 1) err)
            | Inr entryAddr \<Rightarrow>
               (case GetIPAddressesFromHost env (Addr entryAddr) of
                  Inl err \<Rightarrow>
                    Inl (wrapError (Error err @ '': while handling '' @ parts ! 1) err)
                | Inr ipAddresses \<Rightarrow>
                    let services = service_New;
                        ip = ToString env (GetPreferredAddress env ipAddresses (prefer_ipv6 env));
                        services = Update services PeeringKey ''udp''
                                     (ip @ '':'' @ fmt_d (Port entryAddr))
                    in Inr (NewPeer pubKey services))))"

text \<open>
  The loop over the configured entry node definitions, with \<^verbatim>\<open>result\<close> as accumulator:
  an empty string is skipped (\<^verbatim>\<open>continue\<close>), an error returns at once.
\<close>

fun parseEntryNodes_range :: "env \<Rightarrow> string list \<Rightarrow> Peer list \<Rightarrow> error + Peer list" where
  "parseEntryNodes_range env [] result = Inr result"
| "parseEntryNodes_range env (entryNodeDefinition # rest) result =
     (if entryNodeDefinition = [] then parseEntryNodes_range env rest result
      else case parseEntryNode env entryNodeDefinition of
             Inl err \<Rightarrow> Inl err
           | Inr p \<Rightarrow> parseEntryNodes_range env rest (result @ [p]))"

text \<open>
  \<open>parseEntryNodes env ds\<close>, where \<open>ds\<close> is the value of
  \<^verbatim>\<open>parameter.NodeConfig.GetStringSlice(CFG_ENTRY_NODES)\<close>.
\<close>

definition parseEntryNodes :: "env \<Rightarrow> string list \<Rightarrow> error + Peer list" where
  "parseEntryNodes env entryNodeDefinitions = parseEntryNodes_range env entryNodeDefinitions []"

section \<open>isValidNeighbor (lines 53 to 70)\<close>

text \<open>
  How a call ends: it returns a value, it panics, the process exits (\<^verbatim>\<open>os.Exit\<close>, as
  \<^verbatim>\<open>log.Fatalf\<close> does after logging), or it blocks for ever.
\<close>

datatype 'a outcome =
    Returns 'a
  | Panics panic
  | Exits int
  | Blocks

text \<open>
  \<^verbatim>\<open>gossipAddr\<close> is checked against nil (line 56); \<^verbatim>\<open>peeringAddr\<close> is not: line 65 calls
  \<^verbatim>\<open>String()\<close> on it as it is, which on the nil interface is a nil pointer dereference.
\<close>

definition isValidNeighbor :: "env \<Rightarrow> Peer \<Rightarrow> bool outcome" where
  "isValidNeighbor env p =
     (case Get (Services p) (GossipServiceKey env) of
        None \<Rightarrow> Returns False
      | Some gossipAddr \<Rightarrow>
         (case SplitHostPort env (address gossipAddr) of
            Inl err \<Rightarrow> Returns False
          | Inr (gossipHost, gossipPort) \<Rightarrow>
             (case Get (Services p) PeeringKey of
                None \<Rightarrow> Panics NilPointerDereference
              | Some peeringAddr \<Rightarrow>
                 (case SplitHostPort env (address peeringAddr) of
                    Inl err \<Rightarrow> Returns False
                  | Inr (peeringHost, peeringPort) \<Rightarrow> Returns (gossipHost = peeringHost)))))"

section \<open>Package variables, log and calls\<close>

text \<open>
  What \<^verbatim>\<open>discover.New\<close> and \<^verbatim>\<open>selection.New\<close> are given: the local peer, the name of the
  logger, the master peers; the discovery protocol and the neighbor validator.
\<close>

record discover_Protocol =
  disc_local :: Peer
  disc_Logger :: string
  MasterPeers :: "Peer list"

record selection_Protocol =
  sel_local :: Peer
  sel_Discovery :: "discover_Protocol option"
  sel_Logger :: string
  NeighborValidator :: "Peer \<Rightarrow> bool outcome"

text \<open>The package variables of lines 25 to 37; a nil pointer is \<open>None\<close>.\<close>

record globals =
  Discovery :: "discover_Protocol option"
  Selection :: "selection_Protocol option"
  ID :: string

text \<open>
  What a run does to the outside, in order: the lines it logs (\<open>log_Debug_peers\<close> keeps
  the peers that \<^verbatim>\<open>%v\<close> would print), and its calls into the network and the protocols.
\<close>

datatype event =
    log_Info string
  | log_Error string
  | log_Debug_peers string "Peer list"
  | log_Fatal string
  | log_Panic string
  | netutil_CheckUDP UDPAddr UDPAddr bool bool
  | net_ListenUDP string UDPAddr
  | transport_Conn
  | server_Serve "resource list"
  | Start resource
  | Close resource
  | recv_shutdownSignal

record run =
  events :: "event list"
  vars :: globals
  final :: "unit outcome"

section \<open>configureAP (lines 39 to 50)\<close>

text \<open>
  On an error \<^verbatim>\<open>parseEntryNodes\<close> returns the nil slice with it, and \<^verbatim>\<open>configureAP\<close>
  goes on with that slice. \<^verbatim>\<open>selection.New\<close> is called whatever the configuration says.
\<close>

definition configureAP :: "env \<Rightarrow> string list \<Rightarrow> globals \<Rightarrow> run" where
  "configureAP env entryNodeDefinitions g =
     (let (entryNodes, log1) =
            (case parseEntryNodes env entryNodeDefinitions of
               Inl err \<Rightarrow> ([], [log_Error (''Invalid entry nodes; ignoring: '' @ Error err)])
             | Inr ps \<Rightarrow> (ps, []));
          log2 = log1 @ [log_Debug_peers ''Entry node peers: '' entryNodes];
          g = g\<lparr>Discovery := Some \<lparr>disc_local = lPeer env, disc_Logger = ''disc'',
                                    MasterPeers = entryNodes\<rparr>\<rparr>;
          g = g\<lparr>Selection := Some \<lparr>sel_local = lPeer env, sel_Discovery = Discovery g,
                                    sel_Logger = ''sel'',
                                    NeighborValidator = isValidNeighbor env\<rparr>\<rparr>
      in \<lparr>events = log2, vars = g, final = Returns ()\<rparr>)"

section \<open>Deferred calls\<close>

datatype deferred = defer_log_Info string | defer_Close resource

text \<open>
  The deferred calls of a function run when it returns or panics, the last deferred
  first (the list is the stack, its head the call deferred last). A deferred call that
  panics replaces the panic under way, and the calls below it on the stack still run.
\<close>

fun run_deferred :: "env \<Rightarrow> deferred list \<Rightarrow> panic option \<Rightarrow> event list \<times> panic option" where
  "run_deferred env [] pending = ([], pending)"
| "run_deferred env (defer_log_Info msg # ds) pending =
     (let (es, p) = run_deferred env ds pending in (log_Info msg # es, p))"
| "run_deferred env (defer_Close r # ds) pending =
     (let (es, p) = run_deferred env ds
                      (case Close_panics env r of None \<Rightarrow> pending | Some x \<Rightarrow> Some x)
      in (Close r # es, p))"

text \<open>Leaving a function by \<^verbatim>\<open>return\<close> (\<open>pending = None\<close>) or by a panic.\<close>

definition leave :: "env \<Rightarrow> deferred list \<Rightarrow> event list \<Rightarrow> globals \<Rightarrow> panic option \<Rightarrow> run" where
  "leave env defers tr g pending =
     (let (es, p) = run_deferred env defers pending
      in \<lparr>events = tr @ es, vars = g,
          final = (case p of None \<Rightarrow> Returns () | Some x \<Rightarrow> Panics x)\<rparr>)"

section \<open>checkConnection (lines 166 to 180)\<close>

text \<open>
  \<^verbatim>\<open>log.Panicf\<close> logs the message and panics with it. The function defers nothing, so
  its result is the events and the panic, if any, that goes on into the caller.
\<close>

definition checkConnection :: "env \<Rightarrow> UDPAddr \<Rightarrow> Peer \<Rightarrow> event list \<times> panic option" where
  "checkConnection env localAddr self =
     (case Get (Services self) PeeringKey of
        None \<Rightarrow> ([], Some NilPointerDereference)
      | Some peering \<Rightarrow>
         (case ResolveUDPAddr env (network peering) (address peering) of
            Inl err \<Rightarrow> ([], Some (PanicError err))
          | Inr remoteAddr \<Rightarrow>
             (case CheckUDP env localAddr remoteAddr False True of
                None \<Rightarrow> ([netutil_CheckUDP localAddr remoteAddr False True], None)
              | Some err \<Rightarrow>
                 (let msg = ''Please check that HORNET is publicly reachable at ''
                              @ address peering @ ''/'' @ network peering
                  in ([netutil_CheckUDP localAddr remoteAddr False True,
                       log_Error (''Error testing service: '' @ Error err),
                       log_Panic msg],
                      Some (PanicValue msg))))))"

section \<open>start (lines 72 to 130)\<close>

text \<open>\<^verbatim>\<open>net.JoinHostPort\<close>: a host with a colon in it is put in brackets.\<close>

definition JoinHostPort :: "string \<Rightarrow> string \<Rightarrow> string" where
  "JoinHostPort host port =
     (if CHR '':'' \<in> set host then ''['' @ host @ '']:'' @ port else host @ '':'' @ port)"

text \<open>
  \<open>start env g shutdownSignal\<close>: \<open>g\<close> holds the package variables at the call, and
  \<open>shutdownSignal\<close> says whether the channel ever delivers; if it never does, line 128
  blocks. \<^verbatim>\<open>log.Fatalf\<close> logs and exits the process, so no deferred call runs then.
  \<^verbatim>\<open>Discovery.Start\<close> on a nil \<^verbatim>\<open>Discovery\<close> is a nil pointer dereference.
\<close>

definition start :: "env \<Rightarrow> globals \<Rightarrow> bool \<Rightarrow> run" where
  "start env g shutdownSignal =
     (let defers0 = [defer_log_Info ''Stopping Autopeering ... done''] in
      case Get (Services (lPeer env)) PeeringKey of
        None \<Rightarrow> leave env defers0 [] g (Some NilPointerDereference)
      | Some peeringAddr \<Rightarrow>
         (case SplitHostPort env (address peeringAddr) of
            Inl err \<Rightarrow> leave env defers0 [] g (Some (PanicError err))
          | Inr (peeringHost, peeringPort) \<Rightarrow>
             (case ResolveUDPAddr env (network peeringAddr)
                     (JoinHostPort (CFG_BIND_value env) peeringPort) of
                Inl err \<Rightarrow>
                  \<lparr>events = [log_Fatal (''Error resolving '' @ CFG_BIND env @ '': '' @ Error err)],
                   vars = g, final = Exits 1\<rparr>
              | Inr localAddr \<Rightarrow>
                 (let tr1 = [log_Info ''Testing service ...''];
                      (es, p) = checkConnection env localAddr (lPeer env);
                      tr2 = tr1 @ es
                  in case p of
                       Some x \<Rightarrow> leave env defers0 tr2 g (Some x)
                     | None \<Rightarrow>
                        (let tr3 = tr2 @ [log_Info ''Testing service ... done'',
                                          net_ListenUDP (network peeringAddr) localAddr]
                         in case ListenUDP env (network peeringAddr) localAddr of
                              Some err \<Rightarrow>
                                \<lparr>events = tr3 @ [log_Fatal (''Error listening: '' @ Error err)],
                                 vars = g, final = Exits 1\<rparr>
                            | None \<Rightarrow>
                               (let defers1 = defer_Close R_conn # defers0;
                                    tr4 = tr3 @ [transport_Conn];
                                    defers2 = defer_Close R_trans # defers1;
                                    handlers = [R_Discovery]
                                      @ (if Selection g \<noteq> None then [R_Selection] else []);
                                    tr5 = tr4 @ [server_Serve handlers];
                                    defers3 = defer_Close R_srv # defers2
                                in case Discovery g of
                                     None \<Rightarrow> leave env defers3 tr5 g (Some NilPointerDereference)
                                   | Some d \<Rightarrow>
                                      (let tr6 = tr5 @ [Start R_Discovery];
                                           defers4 = defer_Close R_Discovery # defers3;
                                           tr7 = tr6 @ (if Selection g \<noteq> None
                                                        then [Start R_Selection] else []);
                                           defers5 = (if Selection g \<noteq> None
                                                      then defer_Close R_Selection # defers4
                                                      else defers4);
                                           tr8 = tr7 @ [log_Info (plugin_name env
                                                   @ '' started: Address='' @ address peeringAddr
                                                   @ ''/'' @ network peeringAddr)];
                                           g' = g\<lparr>ID := lPeer_ID env\<rparr>;
                                           tr9 = tr8 @ [log_Info (plugin_name env
                                                   @ '' started: ID='' @ ID g' @ '' PublicKey=''
                                                   @ EncodeToString env (PublicKey (lPeer env)))]
                                       in if shutdownSignal
                                          then leave env defers5
                                                 (tr9 @ [recv_shutdownSignal,
                                                         log_Info ''Stopping Autopeering ...''])
                                                 g' None
                                          else \<lparr>events = tr9, vars = g', final = Blocks\<rparr>)))))))"

text \<open>
  The states of the supervisor are read off the run: the session has reached
  \<open>Running\<close> once the discovery protocol has been started.
\<close>

definition Running :: "run \<Rightarrow> bool" where
  "Running r = (Start R_Discovery \<in> set (events r))"

section \<open>Well-formed descriptors, as the specification words them\<close>

text \<open>
  A descriptor \<^verbatim>\<open><pubkey>@<addr>\<close> is written \<open>descriptor k a\<close>. It is well-formed when
  neither segment holds an \<^verbatim>\<open>@\<close>, the key segment is valid base64, the address segment
  parses as host and port, and the host resolves to IP addresses (the invariant of a
  bootstrap peer descriptor). \<open>entry_peer\<close> is the peer the specification expects for it:
  the decoded key, and the one service \<^verbatim>\<open>peering\<close> on \<^verbatim>\<open>udp\<close> at the preferred IP address
  and the port read from the descriptor.
\<close>

definition descriptor :: "string \<Rightarrow> string \<Rightarrow> string" where
  "descriptor k a = k @ ''@'' @ a"

definition well_formed :: "env \<Rightarrow> string \<Rightarrow> string \<Rightarrow> bool" where
  "well_formed env k a =
     (CHR ''@'' \<notin> set k \<and> CHR ''@'' \<notin> set a
      \<and> \<not> isl (DecodeString env k)
      \<and> \<not> isl (ParseOriginAddress env a)
      \<and> \<not> isl (GetIPAddressesFromHost env (Addr (projr (ParseOriginAddress env a)))))"

definition entry_peer :: "env \<Rightarrow> string \<Rightarrow> string \<Rightarrow> Peer" where
  "entry_peer env k a =
     (let entryAddr = projr (ParseOriginAddress env a);
          ip = GetPreferredAddress env (projr (GetIPAddressesFromHost env (Addr entryAddr)))
                 (prefer_ipv6 env)
      in \<lparr>PublicKey = projr (DecodeString env k),
          Services = [PeeringKey \<mapsto>
            \<lparr>network = ''udp'', address = ToString env ip @ '':'' @ fmt_d (Port entryAddr)\<rparr>]\<rparr>)"

section \<open>A concrete environment\<close>

text \<open>
  \<^verbatim>\<open>net.SplitHostPort\<close> of the Go standard library: the port is what follows the last
  colon; a host in brackets ends at the first \<^verbatim>\<open>]\<close>, which must come just before that
  colon; a host without brackets holds no colon; no other bracket is allowed.
\<close>

definition IndexByte :: "string \<Rightarrow> char \<Rightarrow> nat option" where
  "IndexByte s c = (if c \<in> set s then Some (length (takeWhile (\<lambda>x. x \<noteq> c) s)) else None)"

definition LastIndexByte :: "string \<Rightarrow> char \<Rightarrow> nat option" where
  "LastIndexByte s c =
     (if c \<in> set s then Some (length s - 1 - length (takeWhile (\<lambda>x. x \<noteq> c) (rev s)))
      else None)"

definition addrErr :: "string \<Rightarrow> string \<Rightarrow> error + string \<times> string" where
  "addrErr addr why = Inl (errorString (''address '' @ addr @ '': '' @ why))"

definition net_SplitHostPort :: "string \<Rightarrow> error + string \<times> string" where
  "net_SplitHostPort hostport =
     (case LastIndexByte hostport CHR '':'' of
        None \<Rightarrow> addrErr hostport ''missing port in address''
      | Some i \<Rightarrow>
         (let no_more_brackets = (\<lambda>host j k.
                if CHR ''['' \<in> set (drop j hostport)
                then addrErr hostport (''unexpected '' @ [CHR 0x27] @ ''['' @ [CHR 0x27]
                                        @ '' in address'')
                else if CHR '']'' \<in> set (drop k hostport)
                then addrErr hostport (''unexpected '' @ [CHR 0x27] @ '']'' @ [CHR 0x27]
                                        @ '' in address'')
                else Inr (host, drop (i + 1) hostport))
          in if hd hostport = CHR ''[''
             then (case IndexByte hostport CHR '']'' of
                     None \<Rightarrow> addrErr hostport (''missing '' @ [CHR 0x27] @ '']'' @ [CHR 0x27]
                                                @ '' in address'')
                   | Some close \<Rightarrow>
                       if close + 1 = length hostport
                       then addrErr hostport ''missing port in address''
                       else if close + 1 = i
                       then no_more_brackets (take (close - 1) (drop 1 hostport)) 1 (close + 1)
                       else if hostport ! (close + 1) = CHR '':''
                       then addrErr hostport ''too many colons in address''
                       else addrErr hostport ''missing port in address'')
             else (let host = take i hostport
                   in if CHR '':'' \<in> set host
                      then addrErr hostport ''too many colons in address''
                      else no_more_brackets host 0 0)))"

text \<open>
  A small world to run the plugin in: two base64 keys, three addresses, two hosts that
  resolve, a local peer that advertises \<^verbatim>\<open>203.0.113.5:14626\<close> and binds \<^verbatim>\<open>0.0.0.0\<close>; the
  self-test passes, the port is free and every \<^verbatim>\<open>Close\<close> goes well.
\<close>

definition sample_DecodeString :: "string \<Rightarrow> error + bytes" where
  "sample_DecodeString s =
     (if s = ''AQID'' then Inr [1, 2, 3]
      else if s = ''/w=='' then Inr [255]
      else Inl (errorString ''illegal base64 data at input byte 0''))"

definition sample_ParseOriginAddress :: "string \<Rightarrow> error + OriginAddress" where
  "sample_ParseOriginAddress s =
     (if s = ''10.0.0.1:14626'' then Inr \<lparr>Addr = ''10.0.0.1'', Port = 14626\<rparr>
      else if s = ''node.example:15600'' then Inr \<lparr>Addr = ''node.example'', Port = 15600\<rparr>
      else if s = ''nowhere.invalid:14626'' then Inr \<lparr>Addr = ''nowhere.invalid'', Port = 14626\<rparr>
      else Inl (errorString ''invalid origin address''))"

definition sample_GetIPAddressesFromHost :: "string \<Rightarrow> error + IP list" where
  "sample_GetIPAddressesFromHost h =
     (if h = ''10.0.0.1'' then Inr [[10, 0, 0, 1]]
      else if h = ''node.example'' then Inr [[192, 0, 2, 7]]
      else Inl (errorString ''no such host''))"

definition sample_ToString :: "IP \<Rightarrow> string" where
  "sample_ToString ip = (if ip = [10, 0, 0, 1] then ''10.0.0.1'' else ''192.0.2.7'')"

definition sample_ResolveUDPAddr :: "string \<Rightarrow> string \<Rightarrow> error + UDPAddr" where
  "sample_ResolveUDPAddr nw a =
     (if a = ''0.0.0.0:14626'' then Inr \<lparr>udp_IP = [0, 0, 0, 0], udp_Port = 14626, udp_Zone = []\<rparr>
      else if a = ''203.0.113.5:14626''
      then Inr \<lparr>udp_IP = [203, 0, 113, 5], udp_Port = 14626, udp_Zone = []\<rparr>
      else Inl (errorString ''no such host''))"

definition sample_env :: env where
  "sample_env =
     \<lparr>GossipServiceKey = ''gossip'',
      SplitHostPort = net_SplitHostPort,
      DecodeString = sample_DecodeString,
      EncodeToString = (\<lambda>b. if b = [1, 2, 3] then ''AQID'' else ''/w==''),
      ParseOriginAddress = sample_ParseOriginAddress,
      GetIPAddressesFromHost = sample_GetIPAddressesFromHost,
      GetPreferredAddress = (\<lambda>ips prefer. hd ips),
      ToString = sample_ToString,
      prefer_ipv6 = False,
      lPeer = \<lparr>PublicKey = [1, 2, 3],
               Services = [''peering'' \<mapsto> \<lparr>network = ''udp'', address = ''203.0.113.5:14626''\<rparr>]\<rparr>,
      lPeer_ID = ''2GtxMQD9'',
      plugin_name = ''Autopeering'',
      CFG_BIND = ''network.bind_address'',
      CFG_BIND_value = ''0.0.0.0'',
      ResolveUDPAddr = sample_ResolveUDPAddr,
      CheckUDP = (\<lambda>localAddr remoteAddr checkAddress checkPort. None),
      ListenUDP = (\<lambda>nw localAddr. None),
      Close_panics = (\<lambda>r. None)\<rparr>"

text \<open>The package variables before \<^verbatim>\<open>configureAP\<close>: the zero values.\<close>

definition globals0 :: globals where
  "globals0 = \<lparr>Discovery = None, Selection = None, ID = []\<rparr>"

text \<open>A candidate peer that advertises the given gossip and peering addresses.\<close>

definition candidate :: "string option \<Rightarrow> string option \<Rightarrow> Peer" where
  "candidate gossip peering =
     \<lparr>PublicKey = [255],
      Services = (\<lambda>key.
        if key = ''gossip'' then map_option (\<lambda>a. \<lparr>network = ''tcp'', address = a\<rparr>) gossip
        else if key = ''peering'' then map_option (\<lambda>a. \<lparr>network = ''udp'', address = a\<rparr>) peering
        else None)\<rparr>"

text \<open>
  The addresses of that world, and variations of it. In \<open>unreachable_env\<close> the probe of
  the self-test gets no answer. In \<open>port_in_use_env\<close> another listener holds the port of
  the bind address when \<open>start\<close> is called: \<^verbatim>\<open>net.ListenUDP\<close> on it fails, and so does
  \<^verbatim>\<open>netutil.CheckUDP\<close>, which listens on the local address itself before it probes the
  remote one. In \<open>port_taken_later_env\<close> the port is free during the self-test and taken
  before line 94 binds it. In \<open>close_fails_env\<close> closing the discovery protocol panics.
  \<open>configured\<close> holds the package variables after \<^verbatim>\<open>configureAP\<close> with no entry nodes.
\<close>

definition advertised :: networkAddress where
  "advertised = \<lparr>network = ''udp'', address = ''203.0.113.5:14626''\<rparr>"

definition bind_addr :: UDPAddr where
  "bind_addr = \<lparr>udp_IP = [0, 0, 0, 0], udp_Port = 14626, udp_Zone = []\<rparr>"

definition public_addr :: UDPAddr where
  "public_addr = \<lparr>udp_IP = [203, 0, 113, 5], udp_Port = 14626, udp_Zone = []\<rparr>"





definition close_fails_env :: env where
  "close_fails_env =
     sample_env\<lparr>Close_panics := (\<lambda>r. if r = R_Discovery
                                        then Some (PanicValue ''close failed'') else None)\<rparr>"

definition configured :: globals where
  "configured = vars (configureAP sample_env [] globals0)"

section \<open>Properties of strings.Split\<close>

lemma Split_from_no_sep: "sep \<notin> set s \<Longrightarrow> Split_from s sep part = [part @ s]"
  by (induction s arbitrary: part) auto

lemma Split_from_two:
  "sep \<notin> set k \<Longrightarrow> sep \<notin> set a \<Longrightarrow> Split_from (k @ sep # a) sep part = [part @ k, a]"
  by (induction k arbitrary: part) (auto simp: Split_from_no_sep)

lemma Split_two: "sep \<notin> set k \<Longrightarrow> sep \<notin> set a \<Longrightarrow> Split (k @ sep # a) sep = [k, a]"
  by (simp add: Split_def Split_from_two)

lemma length_Split_from:
  "length (Split_from s sep part) = Suc (length (filter (\<lambda>c. c = sep) s))"
  by (induction s arbitrary: part) auto

lemma length_Split: "length (Split s sep) = Suc (length (filter (\<lambda>c. c = sep) s))"
  by (simp add: Split_def length_Split_from)

lemma parseEntryNode_well_formed:
  assumes "well_formed env k a"
  shows "parseEntryNode env (descriptor k a) = Inr (entry_peer env k a)"
proof -
  from assms obtain pk oa ips where
    k: "CHR ''@'' \<notin> set k" and a: "CHR ''@'' \<notin> set a"
    and pk: "DecodeString env k = Inr pk"
    and oa: "ParseOriginAddress env a = Inr oa"
    and ips: "GetIPAddressesFromHost env (Addr oa) = Inr ips"
    unfolding well_formed_def
    by (cases "DecodeString env k"; cases "ParseOriginAddress env a";
        cases "GetIPAddressesFromHost env (Addr (projr (ParseOriginAddress env a)))") auto
  have parts: "Split (descriptor k a) CHR ''@'' = [k, a]"
    using Split_two [OF k a] by (simp add: descriptor_def)
  show ?thesis
    by (simp add: parseEntryNode_def parts pk oa ips entry_peer_def NewPeer_def
                  service_New_def Update_def)
qed

lemma descriptor_not_empty: "descriptor k a \<noteq> []"
  by (simp add: descriptor_def)

section \<open>Properties of parseEntryNodes\<close>

lemma parseEntryNodes_range_acc:
  "parseEntryNodes_range env ds acc =
     (case parseEntryNodes_range env ds [] of Inl e \<Rightarrow> Inl e | Inr ps \<Rightarrow> Inr (acc @ ps))"
proof (induction ds arbitrary: acc)
  case Nil
  show ?case by simp
next
  case (Cons d ds)
  show ?case
  proof (cases "d = []")
    case True
    then show ?thesis using Cons.IH [of acc] by simp
  next
    case False
    show ?thesis
    proof (cases "parseEntryNode env d")
      case (Inl e)
      with False show ?thesis by simp
    next
      case (Inr p)
      have a: "parseEntryNodes_range env (d # ds) acc = parseEntryNodes_range env ds (acc @ [p])"
        using False Inr by simp
      have b: "parseEntryNodes_range env (d # ds) [] = parseEntryNodes_range env ds [p]"
        using False Inr by simp
      show ?thesis
        unfolding a b
        by (subst Cons.IH [of "acc @ [p]"], subst Cons.IH [of "[p]"]) (simp split: sum.splits)
    qed
  qed
qed

lemma parseEntryNodes_Nil: "parseEntryNodes env [] = Inr []"
  by (simp add: parseEntryNodes_def)

lemma parseEntryNodes_Cons:
  "parseEntryNodes env (d # ds) =
     (if d = [] then parseEntryNodes env ds
      else case parseEntryNode env d of
             Inl e \<Rightarrow> Inl e
           | Inr p \<Rightarrow> (case parseEntryNodes env ds of Inl e \<Rightarrow> Inl e | Inr ps \<Rightarrow> Inr (p # ps)))"
proof -
  have "\<And>p. parseEntryNodes_range env ds [p] =
          (case parseEntryNodes_range env ds [] of Inl e \<Rightarrow> Inl e | Inr ps \<Rightarrow> Inr ([p] @ ps))"
    by (rule parseEntryNodes_range_acc)
  then show ?thesis
    by (simp add: parseEntryNodes_def split: sum.splits)
qed

lemma parseEntryNodes_append:
  "parseEntryNodes env (xs @ ys) =
     (case parseEntryNodes env xs of
        Inl e \<Rightarrow> Inl e
      | Inr ps \<Rightarrow> (case parseEntryNodes env ys of Inl e \<Rightarrow> Inl e | Inr qs \<Rightarrow> Inr (ps @ qs)))"
  by (induction xs) (auto simp: parseEntryNodes_Nil parseEntryNodes_Cons split: sum.splits)

lemma parseEntryNodes_singleton:
  "parseEntryNodes env [d] =
     (if d = [] then Inr [] else map_sum id (\<lambda>p. [p]) (parseEntryNode env d))"
  by (simp add: parseEntryNodes_Cons parseEntryNodes_Nil split: sum.splits)

lemma parseEntryNodes_prefix_ok:
  "\<forall>x\<in>set pre. x = [] \<or> \<not> isl (parseEntryNode env x) \<Longrightarrow> \<not> isl (parseEntryNodes env pre)"
  by (induction pre) (auto simp: parseEntryNodes_Nil parseEntryNodes_Cons split: sum.splits)

lemma parseEntryNodes_first_failure:
  assumes "\<forall>x\<in>set pre. x = [] \<or> \<not> isl (parseEntryNode env x)"
    and "d \<noteq> []" and "parseEntryNode env d = Inl e"
  shows "parseEntryNodes env (pre @ d # rest) = Inl e"
proof -
  from assms(1) obtain ps where "parseEntryNodes env pre = Inr ps"
    using parseEntryNodes_prefix_ok [of pre env] by (cases "parseEntryNodes env pre") auto
  then show ?thesis
    using assms(2,3) by (simp add: parseEntryNodes_append parseEntryNodes_Cons)
qed

lemma parseEntryNodes_success:
  "parseEntryNodes env ds = Inr ps \<Longrightarrow>
     (\<forall>x\<in>set ds. x \<noteq> [] \<longrightarrow> \<not> isl (parseEntryNode env x))
     \<and> ps = map (\<lambda>x. projr (parseEntryNode env x)) (filter (\<lambda>x. x \<noteq> []) ds)"
  by (induction ds arbitrary: ps)
     (auto simp: parseEntryNodes_Nil parseEntryNodes_Cons split: sum.splits if_splits)

lemma parseEntryNodes_filter:
  "parseEntryNodes env (filter (\<lambda>d. d \<noteq> []) ds) = parseEntryNodes env ds"
  by (induction ds) (auto simp: parseEntryNodes_Nil parseEntryNodes_Cons split: sum.splits)

lemma sample_parseEntryNode_ok:
  "parseEntryNode sample_env ''AQID@10.0.0.1:14626''
     = Inr (entry_peer sample_env ''AQID'' ''10.0.0.1:14626'')"
  by (simp add: parseEntryNode_def Split_def entry_peer_def sample_env_def
                sample_DecodeString_def sample_ParseOriginAddress_def
                sample_GetIPAddressesFromHost_def sample_ToString_def NewPeer_def
                service_New_def Update_def)

lemma sample_parseEntryNode_bad_shape:
  "parseEntryNode sample_env ''x''
     = Inl (wrapError (Error ErrParsingEntryNode @ '': entry node parts must be 2, is 1'')
              ErrParsingEntryNode)"
  by (simp add: parseEntryNode_def Split_def fmt_d_def digit_def)

subsection \<open>Well-formed descriptors\<close>

text \<open>
  Claim C6. For every list of well-formed descriptors \<^verbatim>\<open>pubkey@host:port\<close>,
  \<open>parseEntryNodes\<close> succeeds and returns exactly one peer per descriptor, in order: its
  public key is the bytes that the key segment decodes to, and its only service is
  \<^verbatim>\<open>peering\<close>, whose address ends in the port read from the descriptor (see \<open>entry_peer\<close>).
\<close>

theorem parseEntryNodes_well_formed:
  assumes "\<forall>(k, a)\<in>set kas. well_formed env k a"
  shows "parseEntryNodes env (map (\<lambda>(k, a). descriptor k a) kas)
           = Inr (map (\<lambda>(k, a). entry_peer env k a) kas)"
  using assms
  by (induction kas)
     (auto simp: parseEntryNodes_Nil parseEntryNodes_Cons descriptor_not_empty
                 parseEntryNode_well_formed)

theorem parseEntryNodes_well_formed_witness:
  "well_formed sample_env ''AQID'' ''10.0.0.1:14626''
   \<and> well_formed sample_env ''/w=='' ''node.example:15600''
   \<and> parseEntryNodes sample_env [''AQID@10.0.0.1:14626'', ''/w==@node.example:15600'']
       = Inr [\<lparr>PublicKey = [1, 2, 3],
               Services = [''peering'' \<mapsto> \<lparr>network = ''udp'', address = ''10.0.0.1:14626''\<rparr>]\<rparr>,
              \<lparr>PublicKey = [255],
               Services = [''peering'' \<mapsto> \<lparr>network = ''udp'', address = ''192.0.2.7:15600''\<rparr>]\<rparr>]"
proof -
  have w1: "well_formed sample_env ''AQID'' ''10.0.0.1:14626''"
    by (simp add: well_formed_def sample_env_def sample_DecodeString_def
                  sample_ParseOriginAddress_def sample_GetIPAddressesFromHost_def)
  have w2: "well_formed sample_env ''/w=='' ''node.example:15600''"
    by (simp add: well_formed_def sample_env_def sample_DecodeString_def
                  sample_ParseOriginAddress_def sample_GetIPAddressesFromHost_def)
  have "\<forall>(k, a)\<in>set [(''AQID'', ''10.0.0.1:14626''), (''/w=='', ''node.example:15600'')].
          well_formed sample_env k a"
    using w1 w2 by simp
  from parseEntryNodes_well_formed [OF this] w1 w2 show ?thesis
    by (simp add: descriptor_def entry_peer_def sample_env_def sample_DecodeString_def
                  sample_ParseOriginAddress_def sample_GetIPAddressesFromHost_def
                  sample_ToString_def PeeringKey_def fmt_d_def digit_def)
qed

subsection \<open>Empty strings\<close>

text \<open>
  Claim C10. Empty strings anywhere in the list are skipped without error: removing all
  of them, or one at any position, leaves the result of \<open>parseEntryNodes\<close> (the error,
  or the peers and their number) as it was.
\<close>

theorem parseEntryNodes_skips_empty:
  "parseEntryNodes env (filter (\<lambda>d. d \<noteq> '''') ds) = parseEntryNodes env ds
   \<and> parseEntryNodes env (xs @ '''' # ys) = parseEntryNodes env (xs @ ys)"
  by (simp add: parseEntryNodes_filter parseEntryNodes_append parseEntryNodes_Cons split: sum.splits)

theorem parseEntryNodes_skips_empty_witness:
  "parseEntryNodes sample_env ['''', ''AQID@10.0.0.1:14626'', '''', '''']
     = parseEntryNodes sample_env [''AQID@10.0.0.1:14626'']"
  using parseEntryNodes_skips_empty [of sample_env "['''', ''AQID@10.0.0.1:14626'', '''', '''']"]
  by simp

subsection \<open>Fail-fast\<close>

text \<open>
  Claim C7. \<open>parseEntryNodes\<close> is fail-fast: when the descriptors before \<open>d\<close> are empty
  or parse, and \<open>d\<close> is not empty and fails to parse with \<open>e\<close>, the call returns \<open>e\<close>
  whatever follows \<open>d\<close> in the list. No bad entry is skipped: when the call succeeds,
  every descriptor that is not empty has parsed, and the result holds one peer for each.
\<close>

theorem parseEntryNodes_fail_fast:
  "((\<forall>x\<in>set pre. x = '''' \<or> \<not> isl (parseEntryNode env x)) \<and> d \<noteq> ''''
      \<and> parseEntryNode env d = Inl e
     \<longrightarrow> parseEntryNodes env (pre @ d # rest) = Inl e)
   \<and> (parseEntryNodes env ds = Inr ps
     \<longrightarrow> (\<forall>x\<in>set ds. x \<noteq> '''' \<longrightarrow> \<not> isl (parseEntryNode env x))
         \<and> ps = map (\<lambda>x. projr (parseEntryNode env x)) (filter (\<lambda>x. x \<noteq> '''') ds))"
  using parseEntryNodes_first_failure [of pre env d e rest] parseEntryNodes_success [of env ds ps]
  by blast

theorem parseEntryNodes_fail_fast_witness:
  "parseEntryNodes sample_env
      [''AQID@10.0.0.1:14626'', '''', ''x'', ''/w==@node.example:15600'']
     = Inl (wrapError (Error ErrParsingEntryNode @ '': entry node parts must be 2, is 1'')
              ErrParsingEntryNode)
   \<and> \<not> isl (parseEntryNode sample_env ''AQID@10.0.0.1:14626'')
   \<and> [entry_peer sample_env ''AQID'' ''10.0.0.1:14626'']
       = map (\<lambda>x. projr (parseEntryNode sample_env x))
           (filter (\<lambda>x. x \<noteq> '''') ['''', ''AQID@10.0.0.1:14626''])"
proof -
  have pre: "\<forall>x\<in>set [''AQID@10.0.0.1:14626'', '''']. x = '''' \<or> \<not> isl (parseEntryNode sample_env x)"
    by (simp add: sample_parseEntryNode_ok)
  have ok: "parseEntryNodes sample_env ['''', ''AQID@10.0.0.1:14626'']
              = Inr [entry_peer sample_env ''AQID'' ''10.0.0.1:14626'']"
    by (simp add: parseEntryNodes_Cons parseEntryNodes_Nil sample_parseEntryNode_ok)
  have bad: "''x'' \<noteq> ''''"
    by simp
  show ?thesis
    using parseEntryNodes_fail_fast
            [where env = sample_env and pre = "[''AQID@10.0.0.1:14626'', '''']" and d = "''x''"
               and e = "wrapError (Error ErrParsingEntryNode
                                     @ '': entry node parts must be 2, is 1'') ErrParsingEntryNode"
               and rest = "[''/w==@node.example:15600'']"
               and ds = "['''', ''AQID@10.0.0.1:14626'']"
               and ps = "[entry_peer sample_env ''AQID'' ''10.0.0.1:14626'']"]
          pre ok bad sample_parseEntryNode_bad_shape
    by simp
qed

lemma parseEntryNode_bad_shape:
  "length (Split d CHR ''@'') \<noteq> 2 \<Longrightarrow>
   parseEntryNode env d
     = Inl (wrapError (Error ErrParsingEntryNode @ '': entry node parts must be 2, is ''
                         @ fmt_d (int (length (Split d CHR ''@'')))) ErrParsingEntryNode)"
  by (simp add: parseEntryNode_def)

lemma parseEntryNode_bad_key:
  "length (Split d CHR ''@'') = 2 \<Longrightarrow> DecodeString env (Split d CHR ''@'' ! 0) = Inl derr \<Longrightarrow>
   parseEntryNode env d
     = Inl (wrapError (Error ErrParsingEntryNode @ '': can'' @ [CHR 0x27]
                         @ ''t decode public key: '' @ Error derr) ErrParsingEntryNode)"
  by (simp add: parseEntryNode_def)

subsection \<open>The errors for a bad shape and a bad key\<close>

text \<open>
  Claim C4, as amended. There is one sentinel, \<open>ErrParsingEntryNode\<close>, and both errors
  wrap it; they differ in their message only. When the descriptors before \<open>d\<close> are empty
  or parse and \<open>d\<close> is not empty: if \<open>d\<close> does not split into exactly two parts at
  \<^verbatim>\<open>@\<close>, \<open>parseEntryNodes\<close> fails with the error that wraps \<open>ErrParsingEntryNode\<close> and
  whose message ends in the number of parts found; if it splits into two parts and the
  first is not valid base64, \<open>parseEntryNodes\<close> fails with the error that wraps
  \<open>ErrParsingEntryNode\<close> and whose message ends in the message of the decode error (the
  decode error itself is not wrapped).
\<close>

theorem parseEntryNodes_shape_and_key_errors:
  assumes "\<forall>x\<in>set pre. x = '''' \<or> \<not> isl (parseEntryNode env x)" and "d \<noteq> ''''"
  shows "(length (Split d CHR ''@'') \<noteq> 2 \<longrightarrow>
            parseEntryNodes env (pre @ d # rest)
              = Inl (wrapError (Error ErrParsingEntryNode @ '': entry node parts must be 2, is ''
                                  @ fmt_d (int (length (Split d CHR ''@''))))
                       ErrParsingEntryNode))
       \<and> (length (Split d CHR ''@'') = 2 \<and> DecodeString env (Split d CHR ''@'' ! 0) = Inl derr \<longrightarrow>
            parseEntryNodes env (pre @ d # rest)
              = Inl (wrapError (Error ErrParsingEntryNode @ '': can'' @ [CHR 0x27]
                                  @ ''t decode public key: '' @ Error derr)
                       ErrParsingEntryNode))"
  using parseEntryNodes_first_failure [OF assms] parseEntryNode_bad_shape [of d env]
        parseEntryNode_bad_key [of d env derr]
  by blast

lemma sample_parseEntryNode_bad_key:
  "parseEntryNode sample_env ''!!@10.0.0.1:14626''
     = Inl (wrapError (Error ErrParsingEntryNode @ '': can'' @ [CHR 0x27]
                         @ ''t decode public key: illegal base64 data at input byte 0'')
              ErrParsingEntryNode)"
  by (simp add: parseEntryNode_def Split_def sample_env_def sample_DecodeString_def)

theorem parseEntryNodes_shape_and_key_errors_witness:
  "parseEntryNodes sample_env [''AQID@10.0.0.1:14626'', ''a@b@c'', ''x'']
     = Inl (wrapError (Error ErrParsingEntryNode @ '': entry node parts must be 2, is 3'')
              ErrParsingEntryNode)
   \<and> parseEntryNodes sample_env ['''', ''!!@10.0.0.1:14626'', ''x'']
     = Inl (wrapError (Error ErrParsingEntryNode @ '': can'' @ [CHR 0x27]
                         @ ''t decode public key: illegal base64 data at input byte 0'')
              ErrParsingEntryNode)"
proof -
  have pre1: "\<forall>x\<in>set [''AQID@10.0.0.1:14626'']. x = '''' \<or> \<not> isl (parseEntryNode sample_env x)"
    by (simp add: sample_parseEntryNode_ok)
  have pre2: "\<forall>x\<in>set ['''']. x = '''' \<or> \<not> isl (parseEntryNode sample_env x)"
    by simp
  have d1: "''a@b@c'' \<noteq> ''''" and d2: "''!!@10.0.0.1:14626'' \<noteq> ''''"
    by simp_all
  have parts1: "Split ''a@b@c'' CHR ''@'' = [''a'', ''b'', ''c'']"
    by (simp add: Split_def)
  have parts2: "Split ''!!@10.0.0.1:14626'' CHR ''@'' = [''!!'', ''10.0.0.1:14626'']"
    by (simp add: Split_def)
  have key: "DecodeString sample_env ''!!'' = Inl (errorString ''illegal base64 data at input byte 0'')"
    by (simp add: sample_env_def sample_DecodeString_def)
  show ?thesis
    using parseEntryNodes_shape_and_key_errors [OF pre1 d1, where rest = "[''x'']"]
          parseEntryNodes_shape_and_key_errors [OF pre2 d2,
            where derr = "errorString ''illegal base64 data at input byte 0''"
              and rest = "[''x'']"]
          key
    by (simp add: parts1 parts2 fmt_d_def digit_def)
qed

text \<open>
  Claim C4 as stated fails. The empty descriptor does not split into two parts, and is
  skipped without any error. For a key that is not base64 the error returned wraps
  \<open>ErrParsingEntryNode\<close>, the error that a bad shape wraps too, and not the decode error:
  \<^verbatim>\<open>errors.Is\<close> does not find the decode error in it.
\<close>

theorem parseEntryNodes_error_kinds_counterexample:
  "length (Split '''' CHR ''@'') \<noteq> 2
   \<and> parseEntryNodes sample_env [''''] = Inr []
   \<and> DecodeString sample_env ''!!'' = Inl (errorString ''illegal base64 data at input byte 0'')
   \<and> Unwrap (projl (parseEntryNodes sample_env [''!!@10.0.0.1:14626''])) = Some ErrParsingEntryNode
   \<and> \<not> errors_Is (projl (parseEntryNodes sample_env [''!!@10.0.0.1:14626'']))
           (errorString ''illegal base64 data at input byte 0'')
   \<and> Unwrap (projl (parseEntryNodes sample_env [''x''])) = Some ErrParsingEntryNode"
proof -
  have parts: "length (Split '''' CHR ''@'') \<noteq> 2"
    by (simp add: Split_def)
  have skipped: "parseEntryNodes sample_env [''''] = Inr []"
    by (simp add: parseEntryNodes_Cons parseEntryNodes_Nil)
  have key: "DecodeString sample_env ''!!''
               = Inl (errorString ''illegal base64 data at input byte 0'')"
    by (simp add: sample_env_def sample_DecodeString_def)
  have e1: "parseEntryNodes sample_env [''!!@10.0.0.1:14626'']
              = Inl (wrapError (Error ErrParsingEntryNode @ '': can'' @ [CHR 0x27]
                       @ ''t decode public key: illegal base64 data at input byte 0'')
                     ErrParsingEntryNode)"
    by (simp add: parseEntryNodes_Cons sample_parseEntryNode_bad_key)
  have e2: "parseEntryNodes sample_env [''x'']
              = Inl (wrapError (Error ErrParsingEntryNode
                       @ '': entry node parts must be 2, is 1'') ErrParsingEntryNode)"
    by (simp add: parseEntryNodes_Cons sample_parseEntryNode_bad_shape)
  have notis: "\<not> errors_Is (projl (parseEntryNodes sample_env [''!!@10.0.0.1:14626'']))
                   (errorString ''illegal base64 data at input byte 0'')"
    unfolding e1 by (simp add: ErrParsingEntryNode_def)
  show ?thesis
    using parts skipped key notis unfolding e1 e2 by simp
qed

section \<open>Properties of configureAP\<close>

text \<open>
  Claim C9. A parse error of the entry nodes does not abort: \<open>configureAP\<close> returns,
  having logged the error and then the empty list of entry node peers, and the discovery
  protocol is constructed with no master peers.
\<close>

theorem configureAP_parse_error:
  assumes "parseEntryNodes env ds = Inl err"
  shows "final (configureAP env ds g) = Returns ()
       \<and> events (configureAP env ds g)
           = [log_Error (''Invalid entry nodes; ignoring: '' @ Error err),
              log_Debug_peers ''Entry node peers: '' []]
       \<and> Discovery (vars (configureAP env ds g))
           = Some \<lparr>disc_local = lPeer env, disc_Logger = ''disc'', MasterPeers = []\<rparr>"
  using assms by (simp add: configureAP_def)

theorem configureAP_parse_error_witness:
  "final (configureAP sample_env [''AQID@10.0.0.1:14626'', ''x''] globals0) = Returns ()
   \<and> events (configureAP sample_env [''AQID@10.0.0.1:14626'', ''x''] globals0)
       = [log_Error (''Invalid entry nodes; ignoring: '' @ Error ErrParsingEntryNode
                       @ '': entry node parts must be 2, is 1''),
          log_Debug_peers ''Entry node peers: '' []]
   \<and> Discovery (vars (configureAP sample_env [''AQID@10.0.0.1:14626'', ''x''] globals0))
       = Some \<lparr>disc_local = lPeer sample_env, disc_Logger = ''disc'', MasterPeers = []\<rparr>"
proof -
  have "parseEntryNodes sample_env [''AQID@10.0.0.1:14626'', ''x'']
          = Inl (wrapError (Error ErrParsingEntryNode @ '': entry node parts must be 2, is 1'')
                   ErrParsingEntryNode)"
    by (simp add: parseEntryNodes_Cons sample_parseEntryNode_ok sample_parseEntryNode_bad_shape)
  from configureAP_parse_error [OF this, of globals0] show ?thesis
    by simp
qed

section \<open>Properties of isValidNeighbor\<close>

text \<open>
  Claim C1. \<open>isValidNeighbor\<close> returns true if and only if the candidate has a gossip
  service, its gossip and peering addresses both split into host and port, and the two
  hosts are equal. It returns false when there is no gossip service, when the gossip
  address does not split, and when the peering address is there and does not split. When
  both addresses split, the result is the equality of the hosts, whatever the ports.
\<close>

theorem isValidNeighbor_iff:
  "(isValidNeighbor env p = Returns True \<longleftrightarrow>
      (\<exists>g pe gh gp ph pp.
          Get (Services p) (GossipServiceKey env) = Some g
        \<and> Get (Services p) PeeringKey = Some pe
        \<and> SplitHostPort env (address g) = Inr (gh, gp)
        \<and> SplitHostPort env (address pe) = Inr (ph, pp)
        \<and> gh = ph))
   \<and> (Get (Services p) (GossipServiceKey env) = None \<longrightarrow> isValidNeighbor env p = Returns False)
   \<and> (\<forall>g. Get (Services p) (GossipServiceKey env) = Some g
          \<longrightarrow> isl (SplitHostPort env (address g)) \<longrightarrow> isValidNeighbor env p = Returns False)
   \<and> (\<forall>pe. Get (Services p) PeeringKey = Some pe
          \<longrightarrow> isl (SplitHostPort env (address pe)) \<longrightarrow> isValidNeighbor env p = Returns False)
   \<and> (\<forall>g pe gh gp ph pp.
          Get (Services p) (GossipServiceKey env) = Some g
        \<longrightarrow> Get (Services p) PeeringKey = Some pe
        \<longrightarrow> SplitHostPort env (address g) = Inr (gh, gp)
        \<longrightarrow> SplitHostPort env (address pe) = Inr (ph, pp)
        \<longrightarrow> isValidNeighbor env p = Returns (gh = ph))"
  unfolding isValidNeighbor_def
  by (auto split: option.splits sum.splits prod.splits)

lemma sample_split1: "net_SplitHostPort ''10.0.0.1:15600'' = Inr (''10.0.0.1'', ''15600'')"
  by (simp add: net_SplitHostPort_def LastIndexByte_def IndexByte_def addrErr_def)
lemma sample_split2: "net_SplitHostPort ''10.0.0.1:14626'' = Inr (''10.0.0.1'', ''14626'')"
  by (simp add: net_SplitHostPort_def LastIndexByte_def IndexByte_def addrErr_def)
lemma sample_split3: "net_SplitHostPort ''10.0.0.2:14626'' = Inr (''10.0.0.2'', ''14626'')"
  by (simp add: net_SplitHostPort_def LastIndexByte_def IndexByte_def addrErr_def)
lemma sample_split4: "isl (net_SplitHostPort ''10.0.0.1'')"
  by (simp add: net_SplitHostPort_def LastIndexByte_def IndexByte_def addrErr_def)

lemma sample_gossip:
  "Get (Services (candidate g p)) (GossipServiceKey sample_env)
     = map_option (\<lambda>a. \<lparr>network = ''tcp'', address = a\<rparr>) g"
  by (simp add: Get_def candidate_def sample_env_def)

lemma sample_peering:
  "Get (Services (candidate g p)) PeeringKey
     = map_option (\<lambda>a. \<lparr>network = ''udp'', address = a\<rparr>) p"
  by (simp add: Get_def candidate_def PeeringKey_def)

lemma sample_SplitHostPort: "SplitHostPort sample_env = net_SplitHostPort"
  by (simp add: sample_env_def)

theorem isValidNeighbor_iff_witness:
  "isValidNeighbor sample_env (candidate (Some ''10.0.0.1:15600'') (Some ''10.0.0.1:14626''))
     = Returns True
   \<and> isValidNeighbor sample_env (candidate (Some ''10.0.0.1:15600'') (Some ''10.0.0.2:14626''))
     = Returns False
   \<and> isValidNeighbor sample_env (candidate None (Some ''10.0.0.1:14626'')) = Returns False
   \<and> isValidNeighbor sample_env (candidate (Some ''10.0.0.1'') (Some ''10.0.0.1:14626''))
     = Returns False
   \<and> isValidNeighbor sample_env (candidate (Some ''10.0.0.1:15600'') (Some ''10.0.0.1''))
     = Returns False"
proof -
  have 1: "isValidNeighbor sample_env
             (candidate (Some ''10.0.0.1:15600'') (Some ''10.0.0.1:14626'')) = Returns True"
    using isValidNeighbor_iff
            [where env = sample_env
               and p = "candidate (Some ''10.0.0.1:15600'') (Some ''10.0.0.1:14626'')"]
    by (simp add: sample_gossip sample_peering sample_SplitHostPort sample_split1 sample_split2)
  have 2: "isValidNeighbor sample_env
             (candidate (Some ''10.0.0.1:15600'') (Some ''10.0.0.2:14626'')) = Returns False"
    using isValidNeighbor_iff
            [where env = sample_env
               and p = "candidate (Some ''10.0.0.1:15600'') (Some ''10.0.0.2:14626'')"]
    by (simp add: sample_gossip sample_peering sample_SplitHostPort sample_split1 sample_split3)
  have 3: "isValidNeighbor sample_env (candidate None (Some ''10.0.0.1:14626'')) = Returns False"
    using isValidNeighbor_iff
            [where env = sample_env and p = "candidate None (Some ''10.0.0.1:14626'')"]
    by (simp add: sample_gossip)
  have 4: "isValidNeighbor sample_env
             (candidate (Some ''10.0.0.1'') (Some ''10.0.0.1:14626'')) = Returns False"
    using isValidNeighbor_iff
            [where env = sample_env
               and p = "candidate (Some ''10.0.0.1'') (Some ''10.0.0.1:14626'')"]
          sample_split4
    by (simp add: sample_gossip sample_peering sample_SplitHostPort)
  have 5: "isValidNeighbor sample_env
             (candidate (Some ''10.0.0.1:15600'') (Some ''10.0.0.1'')) = Returns False"
    using isValidNeighbor_iff
            [where env = sample_env
               and p = "candidate (Some ''10.0.0.1:15600'') (Some ''10.0.0.1'')"]
          sample_split4
    by (simp add: sample_gossip sample_peering sample_SplitHostPort)
  from 1 2 3 4 5 show ?thesis by blast
qed

text \<open>
  Claim C2. A missing peering service is not among the rejections: with a gossip address
  that splits and no peering service, \<open>isValidNeighbor\<close> does not return false but
  dereferences nil, and that is the only way it fails to return. With a peering service
  registered it always returns.
\<close>

theorem isValidNeighbor_missing_peering:
  "(Get (Services p) PeeringKey \<noteq> None \<longrightarrow> (\<exists>b. isValidNeighbor env p = Returns b))
   \<and> (isValidNeighbor env p = Panics NilPointerDereference \<longleftrightarrow>
        (\<exists>g gh gp. Get (Services p) (GossipServiceKey env) = Some g
                  \<and> SplitHostPort env (address g) = Inr (gh, gp)
                  \<and> Get (Services p) PeeringKey = None))
   \<and> ((\<exists>b. isValidNeighbor env p = Returns b)
        \<or> isValidNeighbor env p = Panics NilPointerDereference)"
  unfolding isValidNeighbor_def
  by (auto split: option.splits sum.splits prod.splits)

theorem isValidNeighbor_missing_peering_witness:
  "isValidNeighbor sample_env (candidate (Some ''10.0.0.1:15600'') None)
     = Panics NilPointerDereference
   \<and> (\<exists>b. isValidNeighbor sample_env
              (candidate (Some ''10.0.0.1:15600'') (Some ''10.0.0.1:14626'')) = Returns b)"
proof -
  have 1: "isValidNeighbor sample_env (candidate (Some ''10.0.0.1:15600'') None)
             = Panics NilPointerDereference"
    using isValidNeighbor_missing_peering
            [where env = sample_env and p = "candidate (Some ''10.0.0.1:15600'') None"]
    by (simp add: sample_gossip sample_peering sample_SplitHostPort sample_split1)
  have 2: "\<exists>b. isValidNeighbor sample_env
              (candidate (Some ''10.0.0.1:15600'') (Some ''10.0.0.1:14626'')) = Returns b"
    using isValidNeighbor_missing_peering
            [where env = sample_env
               and p = "candidate (Some ''10.0.0.1:15600'') (Some ''10.0.0.1:14626'')"]
    by (simp add: sample_peering)
  from 1 2 show ?thesis by blast
qed

section \<open>Properties of start\<close>

lemma run_deferred_events:
  "fst (run_deferred env ds pending) = map (case_deferred log_Info Close) ds"
  by (induction env ds pending rule: run_deferred.induct) (auto split: prod.splits)


lemma events_leave [simp]:
  "events (leave env ds tr g pending) = tr @ map (case_deferred log_Info Close) ds"
  using run_deferred_events [of env ds pending]
  by (auto simp: leave_def split: prod.splits)

lemma vars_leave [simp]: "vars (leave env ds tr g pending) = g"
  by (simp add: leave_def split: prod.splits)


lemma final_leave_log [simp]:
  "final (leave env [defer_log_Info m] tr g pending)
     = (case pending of None \<Rightarrow> Returns () | Some x \<Rightarrow> Panics x)"
  by (simp add: leave_def)


lemma start_Running_ok:
  "Running (start env g sig) \<Longrightarrow>
     \<exists>pa h port la ra d.
        Get (Services (lPeer env)) PeeringKey = Some pa
      \<and> SplitHostPort env (address pa) = Inr (h, port)
      \<and> ResolveUDPAddr env (network pa) (JoinHostPort (CFG_BIND_value env) port) = Inr la
      \<and> ResolveUDPAddr env (network pa) (address pa) = Inr ra
      \<and> CheckUDP env la ra False True = None
      \<and> ListenUDP env (network pa) la = None
      \<and> Discovery g = Some d"
  unfolding start_def Running_def checkConnection_def
  by (auto simp: Let_def split: option.splits sum.splits prod.splits if_splits)




lemma start_events_ok:
  assumes "Get (Services (lPeer env)) PeeringKey = Some pa"
    and "SplitHostPort env (address pa) = Inr (h, port)"
    and "ResolveUDPAddr env (network pa) (JoinHostPort (CFG_BIND_value env) port) = Inr la"
    and "ResolveUDPAddr env (network pa) (address pa) = Inr ra"
    and "CheckUDP env la ra False True = None"
    and "ListenUDP env (network pa) la = None"
    and "Discovery g = Some d"
  shows "events (start env g True) =
     [log_Info ''Testing service ...'',
      netutil_CheckUDP la ra False True,
      log_Info ''Testing service ... done'',
      net_ListenUDP (network pa) la,
      transport_Conn,
      server_Serve ([R_Discovery] @ (if Selection g \<noteq> None then [R_Selection] else [])),
      Start R_Discovery]
     @ (if Selection g \<noteq> None then [Start R_Selection] else [])
     @ [log_Info (plugin_name env @ '' started: Address='' @ address pa @ ''/'' @ network pa),
        log_Info (plugin_name env @ '' started: ID='' @ lPeer_ID env @ '' PublicKey=''
                    @ EncodeToString env (PublicKey (lPeer env)))]
     @ [recv_shutdownSignal, log_Info ''Stopping Autopeering ...'']
     @ (if Selection g \<noteq> None then [Close R_Selection] else [])
     @ [Close R_Discovery, Close R_srv, Close R_trans, Close R_conn,
        log_Info ''Stopping Autopeering ... done'']"
  using assms by (simp add: start_def checkConnection_def Let_def)

lemma start_events_Close_panics:
  "events (start (env\<lparr>Close_panics := f\<rparr>) g sig) = events (start env g sig)"
  by (simp add: start_def checkConnection_def Let_def
           split: option.splits sum.splits prod.splits)

lemma start_Selection_started:
  "Running (start env g sig) \<Longrightarrow>
     (Start R_Selection \<in> set (events (start env g sig)) \<longleftrightarrow> Selection g \<noteq> None)"
  unfolding start_def Running_def checkConnection_def
  by (auto simp: Let_def split: option.splits sum.splits prod.splits if_splits)

lemma configureAP_Selection: "Selection (vars (configureAP env ds g)) \<noteq> None"
  by (simp add: configureAP_def Let_def split: sum.splits prod.splits)


lemma sample_lPeer_peering:
  "Get (Services (lPeer sample_env)) PeeringKey = Some advertised"
  by (simp add: sample_env_def Get_def PeeringKey_def advertised_def)

lemma sample_split_local:
  "SplitHostPort sample_env (address advertised) = Inr (''203.0.113.5'', ''14626'')"
  by (simp add: sample_env_def advertised_def net_SplitHostPort_def LastIndexByte_def
                IndexByte_def addrErr_def)

lemma sample_resolve_local:
  "ResolveUDPAddr sample_env (network advertised)
     (JoinHostPort (CFG_BIND_value sample_env) ''14626'') = Inr bind_addr"
  by (simp add: sample_env_def JoinHostPort_def sample_ResolveUDPAddr_def bind_addr_def)

lemma sample_resolve_remote:
  "ResolveUDPAddr sample_env (network advertised) (address advertised) = Inr public_addr"
  by (simp add: sample_env_def sample_ResolveUDPAddr_def advertised_def public_addr_def)

lemma sample_CheckUDP: "CheckUDP sample_env la ra a b = None"
  by (simp add: sample_env_def)

lemma sample_ListenUDP: "ListenUDP sample_env nw la = None"
  by (simp add: sample_env_def)

lemma configured_Discovery:
  "Discovery configured
     = Some \<lparr>disc_local = lPeer sample_env, disc_Logger = ''disc'', MasterPeers = []\<rparr>"
  by (simp add: configured_def configureAP_def parseEntryNodes_Nil)

lemma configured_Selection: "Selection configured \<noteq> None"
  by (simp add: configured_def configureAP_Selection)

lemma sample_start_events:
  "events (start sample_env configured True) =
     [log_Info ''Testing service ...'',
      netutil_CheckUDP bind_addr public_addr False True,
      log_Info ''Testing service ... done'',
      net_ListenUDP ''udp'' bind_addr,
      transport_Conn,
      server_Serve [R_Discovery, R_Selection],
      Start R_Discovery,
      Start R_Selection,
      log_Info ''Autopeering started: Address=203.0.113.5:14626/udp'',
      log_Info ''Autopeering started: ID=2GtxMQD9 PublicKey=AQID'',
      recv_shutdownSignal,
      log_Info ''Stopping Autopeering ...'',
      Close R_Selection, Close R_Discovery, Close R_srv, Close R_trans, Close R_conn,
      log_Info ''Stopping Autopeering ... done'']"
  using start_events_ok [OF sample_lPeer_peering sample_split_local sample_resolve_local
                            sample_resolve_remote sample_CheckUDP sample_ListenUDP
                            configured_Discovery]
        configured_Selection
  by (simp add: advertised_def) (simp add: sample_env_def)

lemma sample_Running: "Running (start sample_env configured True)"
  by (simp add: Running_def sample_start_events)



text \<open>
  Claim C8. When the shutdown signal arrives in \<open>Running\<close>, what follows in the run is the
  log line, then the calls of \<^verbatim>\<open>Close\<close> in the reverse order of acquisition: the
  selection protocol if it was started, the discovery protocol, the server, the
  transport, the connection; nothing was closed before. The calls do not depend on
  whether any \<^verbatim>\<open>Close\<close> panics: the events are the same for every \<open>Close_panics\<close>.
\<close>

theorem start_teardown_order:
  assumes "Running (start env g True)"
  shows "(\<exists>before.
            events (start env g True)
              = before
                @ [recv_shutdownSignal, log_Info ''Stopping Autopeering ...'']
                @ (if Start R_Selection \<in> set before then [Close R_Selection] else [])
                @ [Close R_Discovery, Close R_srv, Close R_trans, Close R_conn,
                   log_Info ''Stopping Autopeering ... done'']
          \<and> (\<forall>r. Close r \<notin> set before)
          \<and> (Start R_Selection \<in> set before \<longleftrightarrow> Selection g \<noteq> None))
       \<and> events (start (env\<lparr>Close_panics := f\<rparr>) g True) = events (start env g True)"
proof -
  from start_Running_ok [OF assms] obtain pa h port la ra d where ok:
    "Get (Services (lPeer env)) PeeringKey = Some pa"
    "SplitHostPort env (address pa) = Inr (h, port)"
    "ResolveUDPAddr env (network pa) (JoinHostPort (CFG_BIND_value env) port) = Inr la"
    "ResolveUDPAddr env (network pa) (address pa) = Inr ra"
    "CheckUDP env la ra False True = None"
    "ListenUDP env (network pa) la = None"
    "Discovery g = Some d"
    by blast
  define before where "before =
     [log_Info ''Testing service ...'',
      netutil_CheckUDP la ra False True,
      log_Info ''Testing service ... done'',
      net_ListenUDP (network pa) la,
      transport_Conn,
      server_Serve ([R_Discovery] @ (if Selection g \<noteq> None then [R_Selection] else [])),
      Start R_Discovery]
     @ (if Selection g \<noteq> None then [Start R_Selection] else [])
     @ [log_Info (plugin_name env @ '' started: Address='' @ address pa @ ''/'' @ network pa),
        log_Info (plugin_name env @ '' started: ID='' @ lPeer_ID env @ '' PublicKey=''
                    @ EncodeToString env (PublicKey (lPeer env)))]"
  have sel: "Start R_Selection \<in> set before \<longleftrightarrow> Selection g \<noteq> None"
    by (simp add: before_def)
  have noclose: "\<forall>r. Close r \<notin> set before"
    by (simp add: before_def)
  have "events (start env g True)
          = before
            @ [recv_shutdownSignal, log_Info ''Stopping Autopeering ...'']
            @ (if Selection g \<noteq> None then [Close R_Selection] else [])
            @ [Close R_Discovery, Close R_srv, Close R_trans, Close R_conn,
               log_Info ''Stopping Autopeering ... done'']"
    unfolding before_def using start_events_ok [OF ok] by simp
  then have "events (start env g True)
          = before
            @ [recv_shutdownSignal, log_Info ''Stopping Autopeering ...'']
            @ (if Start R_Selection \<in> set before then [Close R_Selection] else [])
            @ [Close R_Discovery, Close R_srv, Close R_trans, Close R_conn,
               log_Info ''Stopping Autopeering ... done'']"
    using sel by simp
  with sel noclose show ?thesis
    using start_events_Close_panics [where env = env and f = f and g = g and sig = True]
    by blast
qed

lemma close_fails_events:
  "events (start close_fails_env configured True) = events (start sample_env configured True)"
  unfolding close_fails_env_def by (rule start_events_Close_panics)

lemma close_fails_Running: "Running (start close_fails_env configured True)"
  using sample_Running by (simp add: Running_def close_fails_events)

lemma close_fails_final:
  "final (start close_fails_env configured True) = Panics (PanicValue ''close failed'')"
proof -
  have "Get (Services (lPeer close_fails_env)) PeeringKey = Some advertised"
    "SplitHostPort close_fails_env (address advertised) = Inr (''203.0.113.5'', ''14626'')"
    "ResolveUDPAddr close_fails_env (network advertised)
       (JoinHostPort (CFG_BIND_value close_fails_env) ''14626'') = Inr bind_addr"
    "ResolveUDPAddr close_fails_env (network advertised) (address advertised) = Inr public_addr"
    "CheckUDP close_fails_env bind_addr public_addr False True = None"
    "ListenUDP close_fails_env (network advertised) bind_addr = None"
    "Close_panics close_fails_env
       = (\<lambda>r. if r = R_Discovery then Some (PanicValue ''close failed'') else None)"
    using sample_lPeer_peering sample_split_local sample_resolve_local sample_resolve_remote
          sample_CheckUDP sample_ListenUDP
    by (simp_all add: close_fails_env_def)
  then show ?thesis
    using configured_Discovery configured_Selection
    by (simp add: start_def checkConnection_def leave_def Let_def)
qed

theorem start_teardown_order_witness:
  "Running (start close_fails_env configured True)
   \<and> (\<exists>before.
          events (start close_fails_env configured True)
            = before
              @ [recv_shutdownSignal, log_Info ''Stopping Autopeering ...'']
              @ (if Start R_Selection \<in> set before then [Close R_Selection] else [])
              @ [Close R_Discovery, Close R_srv, Close R_trans, Close R_conn,
                 log_Info ''Stopping Autopeering ... done'']
        \<and> (\<forall>r. Close r \<notin> set before)
        \<and> (Start R_Selection \<in> set before \<longleftrightarrow> Selection configured \<noteq> None))
   \<and> events (start (close_fails_env\<lparr>Close_panics := (\<lambda>r. None)\<rparr>) configured True)
       = events (start close_fails_env configured True)
   \<and> final (start close_fails_env configured True) = Panics (PanicValue ''close failed'')
   \<and> events (start close_fails_env configured True) =
       [log_Info ''Testing service ...'',
        netutil_CheckUDP bind_addr public_addr False True,
        log_Info ''Testing service ... done'',
        net_ListenUDP ''udp'' bind_addr,
        transport_Conn,
        server_Serve [R_Discovery, R_Selection],
        Start R_Discovery,
        Start R_Selection,
        log_Info ''Autopeering started: Address=203.0.113.5:14626/udp'',
        log_Info ''Autopeering started: ID=2GtxMQD9 PublicKey=AQID'',
        recv_shutdownSignal,
        log_Info ''Stopping Autopeering ...'',
        Close R_Selection, Close R_Discovery, Close R_srv, Close R_trans, Close R_conn,
        log_Info ''Stopping Autopeering ... done'']"
  using start_teardown_order [OF close_fails_Running, where f = "\<lambda>r. None"]
        close_fails_Running close_fails_final close_fails_events sample_start_events
  by simp

text \<open>
  Claim C5 asks that the selection protocol be constructed and started only when gossip
  is enabled, as the comment on line 48 says. The code does not do so: whatever the
  configuration, \<open>configureAP\<close> constructs the selection protocol, and every run of
  \<open>start\<close> after it that reaches \<open>Running\<close> starts it.
\<close>

theorem configureAP_selection_unconditional:
  "Selection (vars (configureAP env ds g)) \<noteq> None
   \<and> (Running (start env (vars (configureAP env ds g)) sig) \<longrightarrow>
        Start R_Selection \<in> set (events (start env (vars (configureAP env ds g)) sig)))"
  using start_Selection_started [of env "vars (configureAP env ds g)" sig]
        configureAP_Selection [of env ds g]
  by blast

theorem configureAP_selection_unconditional_witness:
  "Selection (vars (configureAP sample_env [] globals0)) \<noteq> None
   \<and> Running (start sample_env (vars (configureAP sample_env [] globals0)) True)
   \<and> Start R_Selection
        \<in> set (events (start sample_env (vars (configureAP sample_env [] globals0)) True))"
  using configureAP_selection_unconditional [of sample_env "[]" globals0 True]
        sample_Running
  by (simp add: configured_def)

end
